theory Spec2Isabelle
  imports
    Main
    "HOL-Library.Word"
    "HOL-Library.Char_ord"
    "HOL-Library.List_Lexorder"
    "HOL-Library.Multiset"
begin

unbundle bit_operations_syntax

section \<open>The generator enumer and the code it generates\<close>

text \<open>
  The repository is one Go program, \<^verbatim>\<open>main.go\<close>. It reads a type-checked package,
  collects the constants of each requested type (\<^verbatim>\<open>processType\<close>), and executes a
  text template (\<^verbatim>\<open>codeTemplate\<close>) that writes, for each type, three lookup tables and
  a set of functions over them. This theory embeds both halves: the generator
  (subsections 1 to 5) and the Go program the template denotes (subsections 6 to 8).

  Strings are byte lists. Enum values are integers: every function of the template
  treats the type as an integer type (\<^verbatim>\<open>return 0\<close>, \<^verbatim>\<open>%d\<close>, the bit operators), and
  none of them does arithmetic that could overflow, so a value is modelled by the
  number it denotes. The bit operations are defined for every type with bit
  operations, which covers \<^typ>\<open>int\<close> as well as every machine width \<^typ>\<open>'w word\<close>.
\<close>

subsection \<open>1. Library functions of package strings\<close>

text \<open>
  \<^verbatim>\<open>strings.TrimSpace\<close>, restricted to the six ASCII white space bytes of its fast
  path (\<^verbatim>\<open>\t \n \v \f \r\<close> and space). Go also removes the Unicode spaces that are
  encoded in several bytes; those are not part of this model.
\<close>

definition asciiSpace :: "char \<Rightarrow> bool" where
  "asciiSpace c = (c = CHR 0x09 \<or> c = CHR 0x0A \<or> c = CHR 0x0B \<or> c = CHR 0x0C \<or> c = CHR 0x0D \<or> c = CHR 0x20)"

definition TrimSpace :: "string \<Rightarrow> string" where
  "TrimSpace s = rev (dropWhile asciiSpace (rev (dropWhile asciiSpace s)))"

definition HasPrefix :: "string \<Rightarrow> string \<Rightarrow> bool" where
  "HasPrefix s prefix = (length prefix \<le> length s \<and> take (length prefix) s = prefix)"

definition TrimPrefix :: "string \<Rightarrow> string \<Rightarrow> string" where
  "TrimPrefix s prefix = (if HasPrefix s prefix then drop (length prefix) s else s)"

text \<open>\<^verbatim>\<open>strings.Split(s, sep)\<close> for a separator of one byte: one more piece than separators.\<close>

fun Split :: "string \<Rightarrow> char \<Rightarrow> string list" where
  "Split [] sep = [[]]"
| "Split (c # cs) sep =
     (if c = sep then [] # Split cs sep
      else (case Split cs sep of [] \<Rightarrow> [[c]] | w # ws \<Rightarrow> (c # w) # ws))"

fun Join :: "string list \<Rightarrow> string \<Rightarrow> string" where
  "Join [] sep = []"
| "Join [x] sep = x"
| "Join (x # y # ys) sep = x @ sep @ Join (y # ys) sep"

text \<open>\<^verbatim>\<open>strings.ToLower\<close> on the ASCII letters; other bytes are kept.\<close>

definition ToLower :: "string \<Rightarrow> string" where
  "ToLower s = map (\<lambda>c. if CHR ''A'' \<le> c \<and> c \<le> CHR ''Z'' then char_of (of_char c + (32::nat)) else c) s"

subsection \<open>2. The type-checked package and the command line\<close>

text \<open>
  What \<^verbatim>\<open>packages.Load\<close> hands to the generator. A type is kept up to
  \<^verbatim>\<open>types.Identical\<close>: a named type is identical only to itself, so an untyped
  constant or a constant of another named type with the same representation has a
  different \<open>gotype\<close>. \<open>Scope\<close> is the package scope (every package-level object
  with its type), \<open>Syntax\<close> the files in the order the loader lists them, \<open>Defs\<close>
  the entry of \<^verbatim>\<open>TypesInfo.Defs\<close> for an identifier (\<open>None\<close> for nil), \<open>Comment\<close>
  the result of \<^verbatim>\<open>vspec.Comment.Text()\<close> (\<open>None\<close> when there is no line comment).
\<close>

datatype gotype = Named string | Basic string

record Const =
  ConstType :: gotype
  Val :: int

record Ident =
  IdentName :: string
  Defs :: "Const option"

record ValueSpec =
  Names :: "Ident list"
  Comment :: "string option"

datatype Decl = ConstDecl "ValueSpec list" | OtherDecl

type_synonym File = "Decl list"

record Package =
  PkgName :: string
  Scope :: "(string \<times> gotype) list"
  Syntax :: "File list"

text \<open>The flag variables of \<^verbatim>\<open>main.go\<close>, lines 20 to 29.\<close>

record Flags =
  typeNames :: string
  output' :: string
  trimPrefix :: string
  lineComment :: bool
  sqlFlag :: bool
  jsonFlag :: bool
  yamlFlag :: bool
  bitmaskFlag :: bool

text \<open>
  The four feature switches as they appear on the command line (\<^verbatim>\<open>-sql\<close>,
  \<^verbatim>\<open>-json\<close>, \<^verbatim>\<open>-yaml\<close>, \<^verbatim>\<open>-bitmask\<close>), and what \<^verbatim>\<open>flag.Parse\<close> does with
  them, one after the other in the order supplied.
\<close>

datatype toggle = SqlArg | JsonArg | YamlArg | BitmaskArg

fun setToggle :: "toggle \<Rightarrow> Flags \<Rightarrow> Flags" where
  "setToggle SqlArg fl = fl\<lparr>sqlFlag := True\<rparr>"
| "setToggle JsonArg fl = fl\<lparr>jsonFlag := True\<rparr>"
| "setToggle YamlArg fl = fl\<lparr>yamlFlag := True\<rparr>"
| "setToggle BitmaskArg fl = fl\<lparr>bitmaskFlag := True\<rparr>"

definition parseToggles :: "toggle list \<Rightarrow> Flags \<Rightarrow> Flags" where
  "parseToggles args fl = fold setToggle args fl"

subsection \<open>3. Elements and processType\<close>

text \<open>
  \<open>Value\<close> is the exact value of the constant. The source keeps its decimal text
  (\<^verbatim>\<open>constValue.ExactString()\<close>); the template never prints that field and refers
  to the constant by \<open>Name\<close>, which denotes this value in the generated program.
\<close>

record Element =
  Name :: string
  Value :: int
  StringValue :: string

text \<open>Lines 196 to 208 of \<^verbatim>\<open>processType\<close>: the display string of one constant.\<close>

definition deriveStringValue :: "Flags \<Rightarrow> string \<Rightarrow> string option \<Rightarrow> string" where
  "deriveStringValue fl name comment =
     (let stringValue = name;
          stringValue = (if trimPrefix fl \<noteq> [] then TrimPrefix stringValue (trimPrefix fl)
                         else stringValue)
      in case comment of
           None \<Rightarrow> stringValue
         | Some text \<Rightarrow>
             if lineComment fl
             then (let comment = TrimSpace text
                   in if comment \<noteq> [] then comment else stringValue)
             else stringValue)"

definition specElements :: "Flags \<Rightarrow> gotype \<Rightarrow> ValueSpec \<Rightarrow> Element list" where
  "specElements fl targetType vspec =
     concat (map (\<lambda>name.
       case Defs name of
         None \<Rightarrow> []
       | Some constObj \<Rightarrow>
           if ConstType constObj \<noteq> targetType then []
           else [\<lparr>Name = IdentName name, Value = Val constObj,
                  StringValue = deriveStringValue fl (IdentName name) (Comment vspec)\<rparr>])
       (Names vspec))"

fun declElements :: "Flags \<Rightarrow> gotype \<Rightarrow> Decl \<Rightarrow> Element list" where
  "declElements fl targetType OtherDecl = []"
| "declElements fl targetType (ConstDecl specs) = concat (map (specElements fl targetType) specs)"

datatype gen_error =
    Usage
  | NotFound string
  | EmptyEnum string
  | WriteFailed string
  | FormatFailed string

definition processType :: "Flags \<Rightarrow> Package \<Rightarrow> string \<Rightarrow> gen_error + Element list" where
  "processType fl pkg typeName =
     (case map_of (Scope pkg) typeName of
        None \<Rightarrow> Inl (NotFound typeName)
      | Some targetType \<Rightarrow>
          Inr (concat (map (\<lambda>file. concat (map (declElements fl targetType) file)) (Syntax pkg))))"

subsection \<open>4. The template: what one run writes\<close>

record TemplateData =
  PackageName :: string
  Types :: "string list"
  Elements :: "string \<rightharpoonup> Element list"
  TrimPrefix' :: string
  SQL :: bool
  JSON :: bool
  YAML :: bool
  Bitmask :: bool
  Command :: string

text \<open>
  The generated file, as the sequence of its top-level declarations. Each declaration
  records the type whose pass through \<^verbatim>\<open>{{range $typeName := .Types}}\<close> wrote it, the
  block of the template it belongs to, the identifier it declares, and, for the three
  composite literals, the element lines written by the inner \<^verbatim>\<open>{{range $elements}}\<close>.
  The bodies of the functions are fixed text of the template and are not repeated here;
  subsections 6 to 8 give their meaning.
\<close>

datatype group = LookupGroup | BaseGroup | BitmaskGroup | JSONGroup | YAMLGroup | SQLGroup

record TopDecl =
  Owner :: string
  Group :: group
  Declares :: string
  Lines :: "string list"

record GoFile =
  CommandLine :: string
  PackageClause :: string
  Imports :: "string list"
  Decls :: "TopDecl list"

definition funcDecl :: "string \<Rightarrow> group \<Rightarrow> string \<Rightarrow> TopDecl" where
  "funcDecl typeName g name = \<lparr>Owner = typeName, Group = g, Declares = name, Lines = []\<rparr>"

text \<open>One pass of the outer range, lines 271 to 440, in the order of the template text.\<close>

definition typeDecls :: "TemplateData \<Rightarrow> string \<Rightarrow> TopDecl list" where
  "typeDecls data typeName =
     (let elements = (case Elements data typeName of None \<Rightarrow> [] | Some es \<Rightarrow> es) in
      [\<lparr>Owner = typeName, Group = LookupGroup, Declares = ''_'' @ typeName @ ''Map'',
        Lines = map (\<lambda>e. Name e @ '': '' @ [CHR 0x22] @ StringValue e @ [CHR 0x22] @ '','') elements\<rparr>,
       \<lparr>Owner = typeName, Group = LookupGroup, Declares = ''_'' @ typeName @ ''Values'',
        Lines = map (\<lambda>e. Name e @ '','') elements\<rparr>,
       \<lparr>Owner = typeName, Group = LookupGroup, Declares = ''_'' @ typeName @ ''NameToValueMap'',
        Lines = map (\<lambda>e. [CHR 0x22] @ StringValue e @ [CHR 0x22] @ '': '' @ Name e @ '','') elements\<rparr>,
       funcDecl typeName BaseGroup ''String'',
       funcDecl typeName BaseGroup (typeName @ ''Values''),
       funcDecl typeName BaseGroup (typeName @ ''String''),
       funcDecl typeName BaseGroup ''Valid'']
      @ (if Bitmask data
         then map (funcDecl typeName BitmaskGroup)
                [''Has'', ''HasAny'', ''HasAll'', ''Set'', ''Clear'', ''Toggle'']
         else [])
      @ (if JSON data
         then map (funcDecl typeName JSONGroup) [''MarshalJSON'', ''UnmarshalJSON'']
         else [])
      @ (if YAML data
         then map (funcDecl typeName YAMLGroup) [''MarshalYAML'', ''UnmarshalYAML'']
         else [])
      @ (if SQL data
         then map (funcDecl typeName SQLGroup) [''Scan'', ''Value'']
         else []))"

text \<open>\<^verbatim>\<open>tmpl.Execute\<close> on \<^verbatim>\<open>codeTemplate\<close>: header, package clause, imports, then the types.\<close>

definition Execute :: "TemplateData \<Rightarrow> GoFile" where
  "Execute data =
     \<lparr>CommandLine = Command data,
      PackageClause = PackageName data,
      Imports = (if SQL data then [''database/sql/driver''] else [])
                @ [''fmt'']
                @ (if JSON data then [''encoding/json''] else [])
                @ (if YAML data then [''gopkg.in/yaml.v3''] else []),
      Decls = concat (map (typeDecls data) (Types data))\<rparr>"

text \<open>
  \<^verbatim>\<open>generateCode\<close>. The file system is a map from paths to files. Whether
  \<^verbatim>\<open>os.WriteFile\<close> and \<^verbatim>\<open>gofmt\<close> succeed is decided outside the program and is a
  parameter. The template is a constant that parses, and executing it on a
  \<open>TemplateData\<close> does not fail, so the first two error returns have no branch.
  \<^verbatim>\<open>gofmt -w\<close> changes the layout of the file only.
\<close>

record Env =
  WriteOk :: "string \<Rightarrow> bool"
  GofmtOk :: "GoFile \<Rightarrow> bool"

definition generateCode ::
  "Env \<Rightarrow> string \<Rightarrow> TemplateData \<Rightarrow> (string \<rightharpoonup> GoFile) \<Rightarrow> gen_error option \<times> (string \<rightharpoonup> GoFile)" where
  "generateCode env filename data files =
     (let buf = Execute data in
      if \<not> WriteOk env filename then (Some (WriteFailed filename), files)
      else let files' = files(filename \<mapsto> buf) in
           if \<not> GofmtOk env buf then (Some (FormatFailed filename), files')
           else (None, files'))"

subsection \<open>5. main\<close>

text \<open>Lines 41 to 45: split at commas, trim every name, sort.\<close>

definition main_types :: "Flags \<Rightarrow> string list" where
  "main_types fl = sort (map TrimSpace (Split (typeNames fl) CHR '',''))"

text \<open>Lines 47 to 57.\<close>

definition main_outputName :: "Flags \<Rightarrow> string list \<Rightarrow> string" where
  "main_outputName fl types =
     (if output' fl \<noteq> [] then output' fl
      else if length types = 1 then ToLower (hd types) @ ''_enumer.go''
      else if bitmaskFlag fl then ''flags_gen.go''
      else ''enums_gen.go'')"

text \<open>
  Lines 80 to 90: the loop over the types. \<^verbatim>\<open>log.Fatalf\<close> ends the process, so the
  first failure is the result.
\<close>

fun main_processTypes ::
  "Flags \<Rightarrow> Package \<Rightarrow> string list \<Rightarrow> (string \<rightharpoonup> Element list) \<Rightarrow> gen_error + (string \<rightharpoonup> Element list)" where
  "main_processTypes fl pkg [] allElements = Inr allElements"
| "main_processTypes fl pkg (typeName # types) allElements =
     (case processType fl pkg typeName of
        Inl err \<Rightarrow> Inl err
      | Inr elements \<Rightarrow>
          if length elements = 0 then Inl (EmptyEnum typeName)
          else main_processTypes fl pkg types (allElements(typeName \<mapsto> elements)))"

definition buildCommandString :: "Flags \<Rightarrow> string list \<Rightarrow> string \<Rightarrow> string" where
  "buildCommandString fl types outputName =
     Join ([''enumer'', ''-type='' @ Join types '','']
           @ (if trimPrefix fl \<noteq> [] then [''-trimprefix='' @ trimPrefix fl] else [])
           @ (if lineComment fl then [''-linecomment''] else [])
           @ (if jsonFlag fl then [''-json''] else [])
           @ (if yamlFlag fl then [''-yaml''] else [])
           @ (if sqlFlag fl then [''-sql''] else [])
           @ (if output' fl \<noteq> [] then [''-output='' @ output' fl] else [])
           @ (if bitmaskFlag fl then [''-bitmask''] else [])) '' ''"

definition main_data :: "Flags \<Rightarrow> Package \<Rightarrow> string list \<Rightarrow> (string \<rightharpoonup> Element list) \<Rightarrow> string \<Rightarrow> TemplateData" where
  "main_data fl pkg types allElements cmdStr =
     \<lparr>PackageName = PkgName pkg, Types = types, Elements = allElements,
      TrimPrefix' = trimPrefix fl, SQL = sqlFlag fl, JSON = jsonFlag fl, YAML = yamlFlag fl,
      Bitmask = bitmaskFlag fl, Command = cmdStr\<rparr>"

text \<open>
  \<^verbatim>\<open>main\<close>, from the parsed flags and the loaded package to the exit (\<open>None\<close> for a
  normal return) and the file system it leaves. The package is the one that
  \<^verbatim>\<open>packages.Load\<close> returned without errors; a run in which loading fails (lines 63 to
  77) ends there and writes nothing.
\<close>

definition main ::
  "Env \<Rightarrow> Flags \<Rightarrow> Package \<Rightarrow> (string \<rightharpoonup> GoFile) \<Rightarrow> gen_error option \<times> (string \<rightharpoonup> GoFile)" where
  "main env fl pkg files =
     (if length (typeNames fl) = 0 then (Some Usage, files)
      else let types = main_types fl;
               outputName = main_outputName fl types
           in case main_processTypes fl pkg types Map.empty of
                Inl err \<Rightarrow> (Some err, files)
              | Inr allElements \<Rightarrow>
                  generateCode env outputName
                    (main_data fl pkg types allElements (buildCommandString fl types outputName))
                    files)"

subsection \<open>6. The generated program: tables and base functions\<close>

text \<open>
  The three tables are package-level composite literals. Their keys are constants
  (the declared constants in \<^verbatim>\<open>_TypeNameMap\<close>, string literals in
  \<^verbatim>\<open>_TypeNameNameToValueMap\<close>), and Go rejects a map literal in which two constant
  keys are equal (language specification, Composite literals: it is an error to specify
  multiple elements with the same constant key value): the file then does not compile
  and there is no table. \<^verbatim>\<open>gofmt\<close> does not check types, so the generator itself
  still writes the file.

  A constant named \<^verbatim>\<open>_\<close> has an entry in \<^verbatim>\<open>TypesInfo.Defs\<close> like any other, so
  \<^verbatim>\<open>processType\<close> returns an element for it; the literals then use the blank identifier
  as a value, which Go rejects as well.

  The display string is written between double quotes as it is, with no escaping.
  The literal denotes the display string itself when that string holds no double quote,
  no backslash and no line break (\<open>plain\<close>). A display string that is not plain
  makes a literal that denotes another string, or several entries, or does not parse;
  the file may or may not compile. This embedding does not interpret such literals:
  \<open>NotDescribed\<close> says that it gives no tables for the list, not that Go rejects
  the file. \<open>DuplicateKey\<close> and \<open>BlankIdentifier\<close> are the two rejections.

  The embedding is of the three literals: what they denote, given the constants of the
  package. Whether the compiler accepts the rest of the generated file (a declaration
  of the package may already bear the name of a generated function) is not part of it.
\<close>

definition plain :: "string \<Rightarrow> bool" where
  "plain s = list_all (\<lambda>c. c \<noteq> CHR 0x22 \<and> c \<noteq> CHR 0x5C \<and> c \<noteq> CHR 0x0A) s"

definition mapLiteral :: "('k \<times> 'v) list \<Rightarrow> ('k \<rightharpoonup> 'v) option" where
  "mapLiteral kvs = (if distinct (map fst kvs) then Some (map_of kvs) else None)"

record Tables =
  TypeNameMap :: "int \<rightharpoonup> string"
  TypeNameValues :: "int list"
  TypeNameNameToValueMap :: "string \<rightharpoonup> int"

datatype no_tables = NotDescribed | BlankIdentifier | DuplicateKey

definition generatedTables :: "Element list \<Rightarrow> no_tables + Tables" where
  "generatedTables elements =
     (if \<not> list_all (\<lambda>e. plain (StringValue e)) elements then Inl NotDescribed
      else if list_ex (\<lambda>e. Name e = ''_'') elements then Inl BlankIdentifier
      else case mapLiteral (map (\<lambda>e. (Value e, StringValue e)) elements) of
             None \<Rightarrow> Inl DuplicateKey
           | Some m \<Rightarrow>
               (case mapLiteral (map (\<lambda>e. (StringValue e, Value e)) elements) of
                  None \<Rightarrow> Inl DuplicateKey
                | Some n \<Rightarrow>
                    Inr \<lparr>TypeNameMap = m, TypeNameValues = map Value elements,
                         TypeNameNameToValueMap = n\<rparr>))"

text \<open>\<^verbatim>\<open>fmt.Sprintf("%d", i)\<close>: the decimal numeral, with a minus sign below zero.\<close>

function decimal :: "nat \<Rightarrow> string" where
  "decimal n = (if n < 10 then [char_of (48 + n)] else decimal (n div 10) @ [char_of (48 + n mod 10)])"
  by pat_completeness auto
termination
  by (relation "measure id") auto

definition Sprintf_d :: "int \<Rightarrow> string" where
  "Sprintf_d i = (if i < 0 then CHR ''-'' # decimal (nat (- i)) else decimal (nat i))"

text \<open>
  The errors of the generated functions, by their message:
  \<^verbatim>\<open>"%s is not a valid TypeName"\<close>, \<^verbatim>\<open>"TypeName should be a string, got %s"\<close> and
  \<^verbatim>\<open>"cannot scan type %T into TypeName"\<close>.
\<close>

datatype rt_error =
    NotValid string string
  | ShouldBeString string
  | CannotScan string string

text \<open>
  The functions take the type name the template was instantiated with and the tables
  of that type. A Go function that returns a value and an error returns the pair.
\<close>

definition String :: "string \<Rightarrow> Tables \<Rightarrow> int \<Rightarrow> string" where
  "String typeName T i =
     (case TypeNameMap T i of
        Some str \<Rightarrow> str
      | None \<Rightarrow> typeName @ ''('' @ Sprintf_d i @ '')'')"

definition Values :: "Tables \<Rightarrow> int list" where
  "Values T = TypeNameValues T"

definition TypeNameString :: "string \<Rightarrow> Tables \<Rightarrow> string \<Rightarrow> int \<times> rt_error option" where
  "TypeNameString typeName T s =
     (case TypeNameNameToValueMap T s of
        Some val \<Rightarrow> (val, None)
      | None \<Rightarrow> (0, Some (NotValid s typeName)))"

definition Valid :: "Tables \<Rightarrow> int \<Rightarrow> bool" where
  "Valid T i = (case TypeNameMap T i of Some _ \<Rightarrow> True | None \<Rightarrow> False)"

subsection \<open>7. The generated program: bit operations\<close>

definition Has :: "'a::ring_bit_operations \<Rightarrow> 'a \<Rightarrow> bool" where
  "Has i flag = (i AND flag \<noteq> 0)"

fun HasAny :: "'a::ring_bit_operations \<Rightarrow> 'a list \<Rightarrow> bool" where
  "HasAny i [] = False"
| "HasAny i (flag # flags) = (if i AND flag \<noteq> 0 then True else HasAny i flags)"

fun HasAll :: "'a::ring_bit_operations \<Rightarrow> 'a list \<Rightarrow> bool" where
  "HasAll i [] = True"
| "HasAll i (flag # flags) = (if i AND flag = 0 then False else HasAll i flags)"

definition Set :: "'a::ring_bit_operations \<Rightarrow> 'a list \<Rightarrow> 'a" where
  "Set i flags = fold (\<lambda>flag result. result OR flag) flags i"

definition Clear :: "'a::ring_bit_operations \<Rightarrow> 'a list \<Rightarrow> 'a" where
  "Clear i flags = fold (\<lambda>flag result. result AND NOT flag) flags i"

definition Toggle :: "'a::ring_bit_operations \<Rightarrow> 'a list \<Rightarrow> 'a" where
  "Toggle i flags = fold (\<lambda>flag result. result XOR flag) flags i"

subsection \<open>8. The generated program: JSON and SQL\<close>

text \<open>
  The argument of \<^verbatim>\<open>UnmarshalJSON\<close> by what \<^verbatim>\<open>json.Unmarshal(data, &s)\<close> does with
  it for a string variable \<open>s\<close>: a JSON string is stored, \<^verbatim>\<open>null\<close> leaves \<open>s\<close>
  empty without an error, anything else is an error.
\<close>

datatype json_data = JSONString string | JSONNull | JSONOther

text \<open>
  The argument of \<^verbatim>\<open>Scan\<close>, an interface value: nil, a string, a byte slice, or a
  value of another dynamic type, kept by the name \<^verbatim>\<open>%T\<close> prints.
\<close>

datatype any = Nil | AnyString string | AnyBytes string | AnyOther string

text \<open>
  A method on a pointer receiver takes the value the receiver holds and returns the
  value it holds afterwards together with the error.
\<close>

definition UnmarshalJSON :: "string \<Rightarrow> Tables \<Rightarrow> int \<Rightarrow> json_data \<Rightarrow> int \<times> rt_error option" where
  "UnmarshalJSON typeName T i data =
     (case data of
        JSONOther \<Rightarrow> (i, Some (ShouldBeString typeName))
      | JSONNull \<Rightarrow> TypeNameString typeName T []
      | JSONString s \<Rightarrow> TypeNameString typeName T s)"

definition Scan :: "string \<Rightarrow> Tables \<Rightarrow> int \<Rightarrow> any \<Rightarrow> int \<times> rt_error option" where
  "Scan typeName T i v =
     (case v of
        Nil \<Rightarrow> (i, None)
      | AnyString s \<Rightarrow> TypeNameString typeName T s
      | AnyBytes b \<Rightarrow> TypeNameString typeName T b
      | AnyOther ty \<Rightarrow> (i, Some (CannotScan ty typeName)))"

definition Value' :: "string \<Rightarrow> Tables \<Rightarrow> int \<Rightarrow> string \<times> rt_error option" where
  "Value' typeName T i = (String typeName T i, None)"

subsection \<open>9. The test data of the repository\<close>

text \<open>The defaults of the flags, and the constants of the packages under \<^verbatim>\<open>testdata\<close>.\<close>

definition default_flags :: Flags where
  "default_flags =
     \<lparr>typeNames = [], output' = [], trimPrefix = [], lineComment = False,
      sqlFlag = False, jsonFlag = False, yamlFlag = False, bitmaskFlag = False\<rparr>"

definition Status_elements :: "Element list" where
  "Status_elements =
     [\<lparr>Name = ''Pending'', Value = 0, StringValue = ''Pending''\<rparr>,
      \<lparr>Name = ''Running'', Value = 1, StringValue = ''Running''\<rparr>,
      \<lparr>Name = ''Success'', Value = 2, StringValue = ''Success''\<rparr>,
      \<lparr>Name = ''Failure'', Value = 3, StringValue = ''Failure''\<rparr>]"

definition Status_tables :: Tables where
  "Status_tables =
     \<lparr>TypeNameMap = map_of [(0, ''Pending''), (1, ''Running''), (2, ''Success''), (3, ''Failure'')],
      TypeNameValues = [0, 1, 2, 3],
      TypeNameNameToValueMap =
        map_of [(''Pending'', 0), (''Running'', 1), (''Success'', 2), (''Failure'', 3)]\<rparr>"

definition RunStatus_elements :: "Element list" where
  "RunStatus_elements =
     [\<lparr>Name = ''Pending'', Value = 1, StringValue = ''Pending''\<rparr>,
      \<lparr>Name = ''Running'', Value = 2, StringValue = ''Running''\<rparr>,
      \<lparr>Name = ''Success'', Value = 4, StringValue = ''Success''\<rparr>,
      \<lparr>Name = ''Failure'', Value = 8, StringValue = ''Failure''\<rparr>,
      \<lparr>Name = ''Skipped'', Value = 16, StringValue = ''Skipped''\<rparr>,
      \<lparr>Name = ''Completed'', Value = 28, StringValue = ''Completed''\<rparr>]"

definition RunStatus_tables :: Tables where
  "RunStatus_tables =
     \<lparr>TypeNameMap = map_of [(1, ''Pending''), (2, ''Running''), (4, ''Success''), (8, ''Failure''),
                              (16, ''Skipped''), (28, ''Completed'')],
      TypeNameValues = [1, 2, 4, 8, 16, 28],
      TypeNameNameToValueMap =
        map_of [(''Pending'', 1), (''Running'', 2), (''Success'', 4), (''Failure'', 8),
                (''Skipped'', 16), (''Completed'', 28)]\<rparr>"

definition Priority_tables :: Tables where
  "Priority_tables =
     \<lparr>TypeNameMap = map_of [(1, ''Low''), (5, ''Medium''), (10, ''High''), (20, ''Urgent'')],
      TypeNameValues = [1, 5, 10, 20],
      TypeNameNameToValueMap = map_of [(''Low'', 1), (''Medium'', 5), (''High'', 10), (''Urgent'', 20)]\<rparr>"

text \<open>
  The package of \<^verbatim>\<open>testdata/simple_iota\<close>: one file with the declaration of the type
  and one constant declaration of four specs.
\<close>

definition Status_const :: "string \<Rightarrow> int \<Rightarrow> ValueSpec" where
  "Status_const name v =
     \<lparr>Names = [\<lparr>IdentName = name, Defs = Some \<lparr>ConstType = Named ''Status'', Val = v\<rparr>\<rparr>],
      Comment = None\<rparr>"

definition simple_iota_pkg :: Package where
  "simple_iota_pkg =
     \<lparr>PkgName = ''testpkg'',
      Scope = [(''Status'', Named ''Status''), (''Pending'', Named ''Status''),
               (''Running'', Named ''Status''), (''Success'', Named ''Status''),
               (''Failure'', Named ''Status'')],
      Syntax = [[OtherDecl,
                 ConstDecl [Status_const ''Pending'' 0, Status_const ''Running'' 1,
                            Status_const ''Success'' 2, Status_const ''Failure'' 3]]]\<rparr>"

text \<open>A package that declares a type and no constant of it.\<close>

definition no_constants_pkg :: Package where
  "no_constants_pkg =
     \<lparr>PkgName = ''testpkg'', Scope = [(''Mode'', Named ''Mode'')], Syntax = [[OtherDecl]]\<rparr>"

definition always_ok :: Env where
  "always_ok = \<lparr>WriteOk = (\<lambda>_. True), GofmtOk = (\<lambda>_. True)\<rparr>"

text \<open>
  The \<^verbatim>\<open>Permission\<close> type of the flag test data and the \<^verbatim>\<open>Status\<close> type declared in one
  package of two files, and the flags of a run with
  \<^verbatim>\<open>-type="Status, Permission" -sql -json\<close>.
\<close>

definition Permission_const :: "string \<Rightarrow> int \<Rightarrow> ValueSpec" where
  "Permission_const name v =
     \<lparr>Names = [\<lparr>IdentName = name, Defs = Some \<lparr>ConstType = Named ''Permission'', Val = v\<rparr>\<rparr>],
      Comment = None\<rparr>"

definition two_types_pkg :: Package where
  "two_types_pkg =
     \<lparr>PkgName = ''testpkg'',
      Scope = [(''Permission'', Named ''Permission''), (''Read'', Named ''Permission''),
               (''Write'', Named ''Permission''), (''Execute'', Named ''Permission''),
               (''Delete'', Named ''Permission''),
               (''Status'', Named ''Status''), (''Pending'', Named ''Status''),
               (''Running'', Named ''Status''), (''Success'', Named ''Status''),
               (''Failure'', Named ''Status'')],
      Syntax = [[OtherDecl,
                 ConstDecl [Permission_const ''Read'' 1, Permission_const ''Write'' 2,
                            Permission_const ''Execute'' 4, Permission_const ''Delete'' 8]],
                [OtherDecl,
                 ConstDecl [Status_const ''Pending'' 0, Status_const ''Running'' 1,
                            Status_const ''Success'' 2, Status_const ''Failure'' 3]]]\<rparr>"

definition two_types_flags :: Flags where
  "two_types_flags = parseToggles [SqlArg, JsonArg] (default_flags\<lparr>typeNames := ''Status, Permission''\<rparr>)"

definition Permission_elements :: "Element list" where
  "Permission_elements =
     [\<lparr>Name = ''Read'', Value = 1, StringValue = ''Read''\<rparr>,
      \<lparr>Name = ''Write'', Value = 2, StringValue = ''Write''\<rparr>,
      \<lparr>Name = ''Execute'', Value = 4, StringValue = ''Execute''\<rparr>,
      \<lparr>Name = ''Delete'', Value = 8, StringValue = ''Delete''\<rparr>]"

section \<open>Properties\<close>

subsection \<open>The tables of a program that compiles\<close>

lemma Status_generated: "generatedTables Status_elements = Inr Status_tables"
  by (simp add: generatedTables_def Status_elements_def Status_tables_def mapLiteral_def plain_def)

lemma generatedTables_Inr:
  assumes "generatedTables es = Inr T"
  shows "distinct (map Value es)" and "distinct (map StringValue es)"
    and "TypeNameMap T = map_of (map (\<lambda>e. (Value e, StringValue e)) es)"
    and "TypeNameNameToValueMap T = map_of (map (\<lambda>e. (StringValue e, Value e)) es)"
    and "TypeNameValues T = map Value es"
    and "list_all (\<lambda>e. plain (StringValue e)) es"
    and "\<not> list_ex (\<lambda>e. Name e = ''_'') es"
  using assms
  by (auto simp: generatedTables_def mapLiteral_def comp_def split: if_splits option.splits)

lemma TypeNameMap_element:
  assumes "generatedTables es = Inr T" and "e \<in> set es"
  shows "TypeNameMap T (Value e) = Some (StringValue e)"
proof -
  have "distinct (map fst (map (\<lambda>e. (Value e, StringValue e)) es))"
    using generatedTables_Inr(1) [OF assms(1)] by (simp add: comp_def)
  moreover have "(Value e, StringValue e) \<in> set (map (\<lambda>e. (Value e, StringValue e)) es)"
    using assms(2) by auto
  ultimately have "map_of (map (\<lambda>e. (Value e, StringValue e)) es) (Value e) = Some (StringValue e)"
    by (rule map_of_is_SomeI)
  then show ?thesis using generatedTables_Inr(3) [OF assms(1)] by simp
qed

lemma NameToValueMap_element:
  assumes "generatedTables es = Inr T" and "e \<in> set es"
  shows "TypeNameNameToValueMap T (StringValue e) = Some (Value e)"
proof -
  have "distinct (map fst (map (\<lambda>e. (StringValue e, Value e)) es))"
    using generatedTables_Inr(2) [OF assms(1)] by (simp add: comp_def)
  moreover have "(StringValue e, Value e) \<in> set (map (\<lambda>e. (StringValue e, Value e)) es)"
    using assms(2) by auto
  ultimately have "map_of (map (\<lambda>e. (StringValue e, Value e)) es) (StringValue e) = Some (Value e)"
    by (rule map_of_is_SomeI)
  then show ?thesis using generatedTables_Inr(4) [OF assms(1)] by simp
qed

text \<open>
  C1. For every element of a type whose generated file compiles, parsing the display
  string of the element's value gives the value back. The exception the claim allows
  (a display string overwritten by a later element) does not arise in such a program:
  two equal display strings are two equal constant keys.
\<close>

theorem parse_display_roundtrip:
  assumes "generatedTables es = Inr T" and "e \<in> set es"
  shows "TypeNameString tn T (String tn T (Value e)) = (Value e, None)"
  using TypeNameMap_element [OF assms] NameToValueMap_element [OF assms]
  by (simp add: TypeNameString_def String_def)

theorem parse_display_roundtrip_witness:
  "generatedTables Status_elements = Inr Status_tables
   \<and> TypeNameString ''Status'' Status_tables (String ''Status'' Status_tables 2) = (2, None)"
proof -
  have h1: "generatedTables Status_elements = Inr Status_tables"
    by (rule Status_generated)
  have h2: "\<lparr>Name = ''Success'', Value = 2, StringValue = ''Success''\<rparr> \<in> set Status_elements"
    by (simp add: Status_elements_def)
  show ?thesis
    using h1 parse_display_roundtrip [OF h1 h2, of "''Status''"] by simp
qed

subsection \<open>The display string of a constant\<close>

lemma HasPrefix_iff: "HasPrefix s p \<longleftrightarrow> (\<exists>r. s = p @ r)"
proof
  assume "HasPrefix s p"
  then have "s = p @ drop (length p) s"
    by (metis HasPrefix_def append_take_drop_id)
  then show "\<exists>r. s = p @ r" ..
next
  assume "\<exists>r. s = p @ r"
  then show "HasPrefix s p" by (auto simp: HasPrefix_def)
qed

lemma TrimPrefix_append: "TrimPrefix (p @ r) p = r"
  by (simp add: TrimPrefix_def HasPrefix_def)

lemma TrimPrefix_no_match: "\<not> (\<exists>r. s = p @ r) \<Longrightarrow> TrimPrefix s p = s"
  by (simp add: TrimPrefix_def HasPrefix_iff)

text \<open>
  C4. The display string starts from the declared name. With the comment switch on and
  a line comment whose trimmed text is not empty, it is that text, whatever the prefix.
  Otherwise, a non-empty prefix that the name begins with is removed once (the rest of
  the name is the result, also when the rest begins with the prefix again), and with an
  empty prefix or a prefix the name does not begin with the name is the result.
\<close>

theorem deriveStringValue_precedence:
  "(lineComment fl \<and> comment = Some text \<and> TrimSpace text \<noteq> [] \<longrightarrow>
      deriveStringValue fl name comment = TrimSpace text)
   \<and> (\<not> (lineComment fl \<and> (\<exists>t. comment = Some t \<and> TrimSpace t \<noteq> [])) \<longrightarrow>
        (trimPrefix fl \<noteq> [] \<and> name = trimPrefix fl @ rest \<longrightarrow>
           deriveStringValue fl name comment = rest)
      \<and> (trimPrefix fl = [] \<or> \<not> (\<exists>r. name = trimPrefix fl @ r) \<longrightarrow>
           deriveStringValue fl name comment = name))"
proof (intro conjI impI)
  assume "lineComment fl \<and> comment = Some text \<and> TrimSpace text \<noteq> []"
  then show "deriveStringValue fl name comment = TrimSpace text"
    by (simp add: deriveStringValue_def Let_def)
next
  assume no: "\<not> (lineComment fl \<and> (\<exists>t. comment = Some t \<and> TrimSpace t \<noteq> []))"
  then have base: "deriveStringValue fl name comment =
      (if trimPrefix fl \<noteq> [] then TrimPrefix name (trimPrefix fl) else name)"
    by (cases comment) (auto simp: deriveStringValue_def Let_def)
  {
    assume "trimPrefix fl \<noteq> [] \<and> name = trimPrefix fl @ rest"
    then show "deriveStringValue fl name comment = rest"
      using base TrimPrefix_append [of "trimPrefix fl" rest] by simp
  }
  {
    assume "trimPrefix fl = [] \<or> \<not> (\<exists>r. name = trimPrefix fl @ r)"
    then show "deriveStringValue fl name comment = name"
      using base TrimPrefix_no_match [of name "trimPrefix fl"] by auto
  }
qed

theorem deriveStringValue_precedence_witness:
  "deriveStringValue (default_flags\<lparr>trimPrefix := ''Color'', lineComment := True\<rparr>)
      ''ColorRed'' (Some (''red'' @ [CHR 0x0A])) = ''red''
   \<and> deriveStringValue (default_flags\<lparr>trimPrefix := ''Direction''\<rparr>) ''DirectionNorth'' None = ''North''
   \<and> deriveStringValue (default_flags\<lparr>trimPrefix := ''A''\<rparr>) ''AAB'' None = ''AB''
   \<and> deriveStringValue (default_flags\<lparr>trimPrefix := ''Dir''\<rparr>) ''North'' None = ''North''
   \<and> deriveStringValue default_flags ''Pending'' (Some (''waiting'' @ [CHR 0x0A])) = ''Pending''"
proof -
  have ts: "TrimSpace (''red'' @ [CHR 0x0A]) = ''red''"
    by (simp add: TrimSpace_def asciiSpace_def)
  have a: "deriveStringValue (default_flags\<lparr>trimPrefix := ''Color'', lineComment := True\<rparr>)
      ''ColorRed'' (Some (''red'' @ [CHR 0x0A])) = ''red''"
    using deriveStringValue_precedence
      [of "default_flags\<lparr>trimPrefix := ''Color'', lineComment := True\<rparr>"
          "Some (''red'' @ [CHR 0x0A])" "''red'' @ [CHR 0x0A]" "''ColorRed''" "''Red''"] ts
    by (simp add: default_flags_def)
  have b: "deriveStringValue (default_flags\<lparr>trimPrefix := ''Direction''\<rparr>) ''DirectionNorth'' None = ''North''"
    using deriveStringValue_precedence
      [of "default_flags\<lparr>trimPrefix := ''Direction''\<rparr>" None "[]" "''DirectionNorth''" "''North''"]
    by (simp add: default_flags_def)
  have c: "deriveStringValue (default_flags\<lparr>trimPrefix := ''A''\<rparr>) ''AAB'' None = ''AB''"
    using deriveStringValue_precedence
      [of "default_flags\<lparr>trimPrefix := ''A''\<rparr>" None "[]" "''AAB''" "''AB''"]
    by (simp add: default_flags_def)
  have d: "deriveStringValue (default_flags\<lparr>trimPrefix := ''Dir''\<rparr>) ''North'' None = ''North''"
    using deriveStringValue_precedence
      [of "default_flags\<lparr>trimPrefix := ''Dir''\<rparr>" None "[]" "''North''" "[]"]
    by (simp add: default_flags_def)
  have e: "deriveStringValue default_flags ''Pending'' (Some (''waiting'' @ [CHR 0x0A])) = ''Pending''"
    using deriveStringValue_precedence
      [of default_flags "Some (''waiting'' @ [CHR 0x0A])" "[]" "''Pending''" "[]"]
    by (simp add: default_flags_def)
  from a b c d e show ?thesis by blast
qed

subsection \<open>The bit operations\<close>

lemma Set_fold: "Set i flags = i OR Set 0 flags"
proof (induction flags arbitrary: i)
  case Nil
  then show ?case by (simp add: Set_def)
next
  case (Cons f fs)
  have "Set i (f # fs) = Set (i OR f) fs" by (simp add: Set_def)
  also have "\<dots> = (i OR f) OR Set 0 fs" by (rule Cons.IH)
  also have "\<dots> = i OR (f OR Set 0 fs)" by (simp add: or.assoc)
  also have "f OR Set 0 fs = Set (0 OR f) fs" using Cons.IH [of "0 OR f"] by simp
  also have "Set (0 OR f) fs = Set 0 (f # fs)" by (simp add: Set_def)
  finally show ?case .
qed

lemma Clear_fold: "Clear i flags = i AND NOT (Set 0 flags)"
proof (induction flags arbitrary: i)
  case Nil
  then show ?case by (simp add: Clear_def Set_def)
next
  case (Cons f fs)
  have "Clear i (f # fs) = Clear (i AND NOT f) fs" by (simp add: Clear_def)
  also have "\<dots> = (i AND NOT f) AND NOT (Set 0 fs)" by (rule Cons.IH)
  also have "\<dots> = i AND NOT (f OR Set 0 fs)" by (simp add: and.assoc)
  also have "f OR Set 0 fs = Set 0 (f # fs)" using Set_fold [of f fs] by (simp add: Set_def)
  finally show ?case .
qed

lemma Toggle_fold: "Toggle i flags = i XOR Toggle 0 flags"
proof (induction flags arbitrary: i)
  case Nil
  then show ?case by (simp add: Toggle_def)
next
  case (Cons f fs)
  have "Toggle i (f # fs) = Toggle (i XOR f) fs" by (simp add: Toggle_def)
  also have "\<dots> = (i XOR f) XOR Toggle 0 fs" by (rule Cons.IH)
  also have "\<dots> = i XOR (f XOR Toggle 0 fs)" by (simp add: xor.assoc)
  also have "f XOR Toggle 0 fs = Toggle (0 XOR f) fs" using Cons.IH [of "0 XOR f"] by simp
  also have "Toggle (0 XOR f) fs = Toggle 0 (f # fs)" by (simp add: Toggle_def)
  finally show ?case .
qed

text \<open>The laws hold for a call with any list of flags, repeated with the same list.\<close>

lemma Set_twice: "Set (Set v flags) flags = Set v flags"
  by (subst Set_fold, subst (2) Set_fold, subst (3) Set_fold) (simp add: or.assoc)

lemma Clear_twice: "Clear (Clear v flags) flags = Clear v flags"
  by (simp add: Clear_fold and.assoc)

lemma Toggle_twice: "Toggle (Toggle v flags) flags = v"
  by (subst Toggle_fold, subst (2) Toggle_fold) (simp add: xor.assoc)

text \<open>
  C5. Setting a flag twice is setting it once, clearing a flag twice is clearing it
  once, and toggling a flag twice gives the value back, for every value and every flag
  of every integer type (\<^typ>\<open>int\<close> and every \<^typ>\<open>'w word\<close>).
\<close>

theorem bitmask_laws:
  "Set (Set v [f]) [f] = Set v [f]
   \<and> Clear (Clear v [f]) [f] = Clear v [f]
   \<and> Toggle (Toggle v [f]) [f] = v"
  by (simp add: Set_def Clear_def Toggle_def or.assoc and.assoc xor.assoc)

subsection \<open>Lookup tables and membership\<close>

lemma RunStatus_generated: "generatedTables RunStatus_elements = Inr RunStatus_tables"
  by (simp add: generatedTables_def RunStatus_elements_def RunStatus_tables_def mapLiteral_def plain_def)

text \<open>
  C3. In a program that compiles, \<open>Valid\<close> holds of a value exactly when the value is
  the value of one of the constants; so the bitwise or of two values is valid exactly
  when that number is itself the value of a constant, whether or not the two are valid.
\<close>

theorem Valid_iff_declared:
  assumes "generatedTables es = Inr T"
  shows "(Valid T v \<longleftrightarrow> v \<in> Value ` set es)
         \<and> (Valid T (a OR b) \<longleftrightarrow> a OR b \<in> Value ` set es)"
proof -
  have dom: "dom (TypeNameMap T) = Value ` set es"
    using generatedTables_Inr(3) [OF assms]
    by (simp add: dom_map_of_conv_image_fst image_image)
  have "\<And>x. Valid T x \<longleftrightarrow> x \<in> dom (TypeNameMap T)"
    by (auto simp: Valid_def split: option.splits)
  then show ?thesis using dom by simp
qed

theorem Valid_iff_declared_witness:
  "generatedTables RunStatus_elements = Inr RunStatus_tables
   \<and> Valid RunStatus_tables 1 \<and> Valid RunStatus_tables 2 \<and> \<not> Valid RunStatus_tables (1 OR 2)
   \<and> Valid RunStatus_tables 4 \<and> Valid RunStatus_tables 28 \<and> Valid RunStatus_tables (4 OR 28)"
proof -
  have h: "generatedTables RunStatus_elements = Inr RunStatus_tables"
    by (rule RunStatus_generated)
  have vals: "Value ` set RunStatus_elements = {1, 2, 4, 8, 16, 28}"
    by (simp add: RunStatus_elements_def)
  have o1: "(1::int) OR 2 = 3" and o2: "(4::int) OR 28 = 28" by simp_all
  show ?thesis
    using h Valid_iff_declared [OF h, of 1 1 2] Valid_iff_declared [OF h, of 2 4 28]
      Valid_iff_declared [OF h, of 4 4 28] Valid_iff_declared [OF h, of 28 4 28]
    by (simp add: vals o1 o2)
qed






subsection \<open>The display function\<close>

text \<open>The numeral written by \<open>decimal\<close> reads back as the number.\<close>

lemma decimal_value: "foldl (\<lambda>a c. 10 * a + (of_char c - 48)) 0 (decimal n) = n"
proof (induction n rule: decimal.induct)
  case (1 n)
  show ?case
  proof (cases "n < 10")
    case True
    then show ?thesis by (subst decimal.simps) simp
  next
    case False
    have "n mod 10 < 10" by simp
    then have d: "of_char (char_of (48 + n mod 10)) = 48 + n mod 10"
      by simp
    show ?thesis
      using False 1 d by (subst decimal.simps) simp
  qed
qed

lemma decimal_digits: "set (decimal n) \<subseteq> set ''0123456789''"
proof (induction n rule: decimal.induct)
  case (1 n)
  have d: "\<And>k::nat. k < 10 \<Longrightarrow> char_of (48 + k) \<in> set ''0123456789''"
  proof -
    fix k :: nat
    assume "k < 10"
    then have "k \<in> {0, 1, 2, 3, 4, 5, 6, 7, 8, 9}" by auto
    then show "char_of (48 + k) \<in> set ''0123456789''"
      by (elim insertE emptyE; hypsubst; code_simp)
  qed
  show ?case
  proof (cases "n < 10")
    case True
    then show ?thesis using d [of n] by (subst decimal.simps) simp
  next
    case False
    have "n mod 10 < 10" by simp
    then show ?thesis
      using False 1 d [of "n mod 10"] by (subst decimal.simps) simp
  qed
qed

text \<open>
  C10. \<open>String\<close> has a result for every value: the table's entry when there is one,
  and otherwise the type name followed by the value in parentheses, written as a
  decimal numeral: an optional minus sign and digits that read back as the absolute
  value.
\<close>

theorem String_fallback:
  "(TypeNameMap T i = Some s \<longrightarrow> String tn T i = s)
   \<and> (TypeNameMap T i = None \<longrightarrow> String tn T i = tn @ ''('' @ Sprintf_d i @ '')'')
   \<and> Sprintf_d i = (if i < 0 then ''-'' else []) @ decimal (nat \<bar>i\<bar>)
   \<and> set (decimal (nat \<bar>i\<bar>)) \<subseteq> set ''0123456789''
   \<and> int (foldl (\<lambda>a c. 10 * a + (of_char c - 48)) 0 (decimal (nat \<bar>i\<bar>))) = \<bar>i\<bar>"
proof -
  have "Sprintf_d i = (if i < 0 then ''-'' else []) @ decimal (nat \<bar>i\<bar>)"
    by (simp add: Sprintf_d_def del: decimal.simps)
  then show ?thesis
    using decimal_digits [of "nat \<bar>i\<bar>"] decimal_value [of "nat \<bar>i\<bar>"]
    by (simp add: String_def del: decimal.simps)
qed

theorem String_fallback_witness:
  "TypeNameMap Priority_tables 7 = None
   \<and> String ''Priority'' Priority_tables 7 = ''Priority(7)''
   \<and> String ''Priority'' Priority_tables (- 12) = ''Priority(-12)''
   \<and> String ''Priority'' Priority_tables 10 = ''High''"
proof -
  have d: "Sprintf_d 7 = ''7''" "Sprintf_d (- 12) = ''-12''"
    by code_simp+
  show ?thesis
    using String_fallback [of Priority_tables 7 "[]" "''Priority''"]
      String_fallback [of Priority_tables "- 12" "[]" "''Priority''"]
      String_fallback [of Priority_tables 10 "''High''" "''Priority''"]
    by (simp add: Priority_tables_def d del: decimal.simps)
qed

subsection \<open>Scanning and unmarshalling\<close>

text \<open>
  C7, as stated, at a receiver that holds 1: after \<open>Scan\<close> of nil the receiver
  still holds 1, not the zero value.
\<close>

theorem Scan_nil_counterexample:
  "Scan ''Status'' Status_tables 1 Nil = (1, None) \<and> fst (Scan ''Status'' Status_tables 1 Nil) \<noteq> 0"
  by (simp add: Scan_def)

text \<open>
  C7, amended. \<open>Scan\<close> of a string or of a byte slice parses it and stores the result
  (the value of the constant when the text is a display string); \<open>Scan\<close> of nil leaves
  the receiver as it was, which is the zero value only when the receiver held it before,
  and returns no error; \<open>Scan\<close> of any other type leaves the receiver as it was and
  returns the error that names the type.
\<close>

theorem Scan_cases:
  "Scan tn T i Nil = (i, None)
   \<and> Scan tn T i (AnyString s) = TypeNameString tn T s
   \<and> Scan tn T i (AnyBytes s) = TypeNameString tn T s
   \<and> (TypeNameNameToValueMap T s = Some v \<longrightarrow>
        Scan tn T i (AnyString s) = (v, None) \<and> Scan tn T i (AnyBytes s) = (v, None))
   \<and> Scan tn T i (AnyOther ty) = (i, Some (CannotScan ty tn))"
  by (simp add: Scan_def TypeNameString_def)

theorem Scan_cases_witness:
  "Scan ''Status'' Status_tables 0 (AnyString ''Pending'') = (0, None)
   \<and> Scan ''Status'' Status_tables 0 (AnyBytes ''Running'') = (1, None)
   \<and> Scan ''Status'' Status_tables 0 Nil = (0, None)
   \<and> Scan ''Status'' Status_tables 3 Nil = (3, None)
   \<and> Scan ''Status'' Status_tables 0 (AnyOther ''int'') = (0, Some (CannotScan ''int'' ''Status''))"
proof -
  have p: "TypeNameNameToValueMap Status_tables ''Pending'' = Some 0"
    and r: "TypeNameNameToValueMap Status_tables ''Running'' = Some 1"
    by (simp_all add: Status_tables_def)
  show ?thesis
    using Scan_cases [of "''Status''" Status_tables 0 "''Pending''" 0 "''int''"]
      Scan_cases [of "''Status''" Status_tables 0 "''Running''" 1 "''int''"]
      Scan_cases [of "''Status''" Status_tables 3 "''Running''" 1 "''int''"] p r
    by blast
qed

text \<open>
  C9. When the text is not a key of the string-to-value table, the parse function
  returns zero with the error, and \<open>UnmarshalJSON\<close> and \<open>Scan\<close> store that zero in
  the receiver whatever it held before.
\<close>

theorem parse_failure_zeroes_receiver:
  assumes "TypeNameNameToValueMap T s = None"
  shows "TypeNameString tn T s = (0, Some (NotValid s tn))
         \<and> UnmarshalJSON tn T i (JSONString s) = (0, Some (NotValid s tn))
         \<and> Scan tn T i (AnyString s) = (0, Some (NotValid s tn))
         \<and> Scan tn T i (AnyBytes s) = (0, Some (NotValid s tn))"
  using assms by (simp add: TypeNameString_def UnmarshalJSON_def Scan_def)

theorem parse_failure_zeroes_receiver_witness:
  "TypeNameNameToValueMap Status_tables ''InvalidStatus'' = None
   \<and> TypeNameString ''Status'' Status_tables ''InvalidStatus'' = (0, Some (NotValid ''InvalidStatus'' ''Status''))
   \<and> UnmarshalJSON ''Status'' Status_tables 2 (JSONString ''InvalidStatus'')
        = (0, Some (NotValid ''InvalidStatus'' ''Status''))
   \<and> Scan ''Status'' Status_tables 2 (AnyString ''InvalidStatus'')
        = (0, Some (NotValid ''InvalidStatus'' ''Status''))
   \<and> Scan ''Status'' Status_tables 2 (AnyBytes ''InvalidStatus'')
        = (0, Some (NotValid ''InvalidStatus'' ''Status''))"
proof -
  have h: "TypeNameNameToValueMap Status_tables ''InvalidStatus'' = None"
    by (simp add: Status_tables_def)
  show ?thesis
    using h parse_failure_zeroes_receiver [OF h, of "''Status''" 2] by simp
qed

subsection \<open>Resolution failures in main\<close>

lemma processType_Inl:
  "processType fl pkg t = Inl e \<longleftrightarrow> e = NotFound t \<and> map_of (Scope pkg) t = None"
  by (auto simp: processType_def split: option.splits)

lemma main_processTypes_Inl_iff:
  "(\<exists>err. main_processTypes fl pkg types all = Inl err) \<longleftrightarrow>
   (\<exists>t\<in>set types. map_of (Scope pkg) t = None \<or> processType fl pkg t = Inr [])"
proof (induction types arbitrary: all)
  case Nil
  then show ?case by simp
next
  case (Cons t ts)
  show ?case
  proof (cases "processType fl pkg t")
    case (Inl e)
    then show ?thesis using processType_Inl [of fl pkg t e] by auto
  next
    case (Inr es)
    then have known: "map_of (Scope pkg) t \<noteq> None"
      by (auto simp: processType_def split: option.splits)
    show ?thesis
    proof (cases "es = []")
      case True
      then show ?thesis using Inr by auto
    next
      case False
      then have step: "main_processTypes fl pkg (t # ts) all =
          main_processTypes fl pkg ts (all(t \<mapsto> es))"
        using Inr by simp
      have "(\<exists>err. main_processTypes fl pkg (t # ts) all = Inl err) \<longleftrightarrow>
          (\<exists>t\<in>set ts. map_of (Scope pkg) t = None \<or> processType fl pkg t = Inr [])"
        unfolding step by (rule Cons.IH)
      moreover have "\<not> (map_of (Scope pkg) t = None \<or> processType fl pkg t = Inr [])"
        using known Inr False by simp
      ultimately show ?thesis by (auto simp del: main_processTypes.simps)
    qed
  qed
qed

lemma main_processTypes_error:
  "main_processTypes fl pkg types all = Inl err \<Longrightarrow>
   \<exists>t\<in>set types. (err = NotFound t \<and> map_of (Scope pkg) t = None)
                \<or> (err = EmptyEnum t \<and> processType fl pkg t = Inr [])"
proof (induction types arbitrary: all)
  case Nil
  then show ?case by simp
next
  case (Cons t ts)
  show ?case
  proof (cases "processType fl pkg t")
    case (Inl e)
    then show ?thesis using Cons.prems processType_Inl [of fl pkg t e] by auto
  next
    case (Inr es)
    show ?thesis
    proof (cases "es = []")
      case True
      then show ?thesis using Inr Cons.prems by auto
    next
      case False
      then have "main_processTypes fl pkg ts (all(t \<mapsto> es)) = Inl err"
        using Inr Cons.prems by simp
      from Cons.IH [OF this] show ?thesis by auto
    qed
  qed
qed

lemma main_resolution_failure:
  assumes "main_processTypes fl pkg (main_types fl) Map.empty = Inl err"
  shows "snd (main env fl pkg files) = files"
    and "typeNames fl \<noteq> [] \<Longrightarrow> main env fl pkg files = (Some err, files)"
  using assms by (simp_all add: main_def Let_def)

lemma specElements_Nil_iff:
  "specElements fl ty vs = [] \<longleftrightarrow>
     (\<forall>n\<in>set (Names vs). \<forall>c. Defs n = Some c \<longrightarrow> ConstType c \<noteq> ty)"
  by (auto simp: specElements_def split: option.splits if_splits)

lemma declElements_Nil_iff:
  "declElements fl ty d = [] \<longleftrightarrow>
     (\<forall>specs. d = ConstDecl specs \<longrightarrow> (\<forall>vs\<in>set specs. specElements fl ty vs = []))"
  by (cases d) auto

lemma processType_Nil_iff:
  "processType fl pkg t = Inr [] \<longleftrightarrow>
     (\<exists>ty. map_of (Scope pkg) t = Some ty \<and>
       (\<forall>file\<in>set (Syntax pkg). \<forall>specs. ConstDecl specs \<in> set file \<longrightarrow>
          (\<forall>vs\<in>set specs. \<forall>n\<in>set (Names vs). \<forall>c. Defs n = Some c \<longrightarrow> ConstType c \<noteq> ty)))"
proof (cases "map_of (Scope pkg) t")
  case None
  then show ?thesis by (simp add: processType_def)
next
  case (Some ty)
  have "processType fl pkg t = Inr [] \<longleftrightarrow>
      (\<forall>file\<in>set (Syntax pkg). \<forall>d\<in>set file. declElements fl ty d = [])"
    using Some by (simp add: processType_def)
  also have "\<dots> \<longleftrightarrow> (\<forall>file\<in>set (Syntax pkg). \<forall>specs. ConstDecl specs \<in> set file \<longrightarrow>
      (\<forall>vs\<in>set specs. specElements fl ty vs = []))"
    by (simp add: declElements_Nil_iff) blast
  also have "\<dots> \<longleftrightarrow> (\<forall>file\<in>set (Syntax pkg). \<forall>specs. ConstDecl specs \<in> set file \<longrightarrow>
      (\<forall>vs\<in>set specs. \<forall>n\<in>set (Names vs). \<forall>c. Defs n = Some c \<longrightarrow> ConstType c \<noteq> ty))"
    by (simp add: specElements_Nil_iff)
  finally show ?thesis using Some by simp
qed

text \<open>
  C6. The loop over the requested types fails exactly when one of them is not in the
  package scope or has no constant of its type (\<open>processType_Nil_iff\<close> spells the
  latter out). The error is \<open>NotFound\<close> or \<open>EmptyEnum\<close> for such a type, the run
  ends with it, and the file system is as it was before the run.
\<close>

theorem resolution_failure:
  "((\<exists>e. main_processTypes fl pkg (main_types fl) Map.empty = Inl e) \<longleftrightarrow>
      (\<exists>t\<in>set (main_types fl). map_of (Scope pkg) t = None \<or> processType fl pkg t = Inr []))
   \<and> (main_processTypes fl pkg (main_types fl) Map.empty = Inl err \<longrightarrow>
        (\<exists>t\<in>set (main_types fl). (err = NotFound t \<and> map_of (Scope pkg) t = None)
                                  \<or> (err = EmptyEnum t \<and> processType fl pkg t = Inr []))
        \<and> snd (main env fl pkg files) = files
        \<and> (typeNames fl \<noteq> [] \<longrightarrow> main env fl pkg files = (Some err, files)))"
  using main_processTypes_Inl_iff [of fl pkg "main_types fl" Map.empty]
    main_processTypes_error [of fl pkg "main_types fl" Map.empty err]
    main_resolution_failure [of fl pkg err env files]
  by blast

theorem resolution_failure_witness:
  "main always_ok (default_flags\<lparr>typeNames := ''Status,Missing''\<rparr>) simple_iota_pkg Map.empty
     = (Some (NotFound ''Missing''), Map.empty)
   \<and> main always_ok (default_flags\<lparr>typeNames := ''Mode''\<rparr>) no_constants_pkg Map.empty
     = (Some (EmptyEnum ''Mode''), Map.empty)"
proof -
  let ?f1 = "default_flags\<lparr>typeNames := ''Status,Missing''\<rparr>"
  let ?f2 = "default_flags\<lparr>typeNames := ''Mode''\<rparr>"
  have t1: "main_types ?f1 = [''Missing'', ''Status'']" by code_simp
  have t2: "main_types ?f2 = [''Mode'']" by code_simp
  have r1: "main_processTypes ?f1 simple_iota_pkg (main_types ?f1) Map.empty = Inl (NotFound ''Missing'')"
    by (simp add: t1 processType_def simple_iota_pkg_def)
  have r2: "main_processTypes ?f2 no_constants_pkg (main_types ?f2) Map.empty = Inl (EmptyEnum ''Mode'')"
    by (simp add: t2 processType_def no_constants_pkg_def)
  have n1: "typeNames ?f1 \<noteq> []" and n2: "typeNames ?f2 \<noteq> []" by simp_all
  show ?thesis
    using resolution_failure [of ?f1 simple_iota_pkg "NotFound ''Missing''" always_ok Map.empty]
      resolution_failure [of ?f2 no_constants_pkg "EmptyEnum ''Mode''" always_ok Map.empty]
      r1 r2 n1 n2
    by blast
qed

text \<open>
  A run that resolves its type: on \<^verbatim>\<open>testdata/simple_iota\<close>, \<^verbatim>\<open>processType\<close> finds the
  four constants in the order of their declaration, and \<^verbatim>\<open>-type=Status\<close> ends
  without an error and leaves the one file \<^verbatim>\<open>status_enumer.go\<close>.
\<close>

lemma simple_iota_Status:
  "processType default_flags simple_iota_pkg ''Status'' = Inr Status_elements"
  by (simp add: processType_def simple_iota_pkg_def specElements_def Status_const_def
      deriveStringValue_def default_flags_def Status_elements_def)

lemma main_Status_run:
  "fst (main always_ok (default_flags\<lparr>typeNames := ''Status''\<rparr>) simple_iota_pkg Map.empty) = None
   \<and> dom (snd (main always_ok (default_flags\<lparr>typeNames := ''Status''\<rparr>) simple_iota_pkg Map.empty))
       = {''status_enumer.go''}"
proof -
  let ?f = "default_flags\<lparr>typeNames := ''Status''\<rparr>"
  have t: "main_types ?f = [''Status'']" by code_simp
  have n: "main_outputName ?f [''Status''] = ''status_enumer.go''" by code_simp
  have p: "processType ?f simple_iota_pkg ''Status'' = Inr Status_elements"
    by (simp add: processType_def simple_iota_pkg_def specElements_def Status_const_def
      deriveStringValue_def default_flags_def Status_elements_def)
  have r: "main_processTypes ?f simple_iota_pkg [''Status''] Map.empty = Inr [''Status'' \<mapsto> Status_elements]"
    by (simp add: p) (simp add: Status_elements_def)
  show ?thesis
    by (simp add: main_def Let_def t n r generateCode_def always_ok_def
        del: main_processTypes.simps)
qed

subsection \<open>The order of the generated file\<close>

text \<open>
  What a run that returns normally has written: the file is the template executed on
  data whose type list is the sorted list of trimmed names, whose elements for every
  type are the result of \<^verbatim>\<open>processType\<close> for that type, and whose switches are the flags.
\<close>

lemma main_processTypes_Inr:
  "main_processTypes fl pkg types all = Inr m \<Longrightarrow>
     (\<forall>t\<in>set types. \<exists>es. processType fl pkg t = Inr es \<and> es \<noteq> [] \<and> m t = Some es)
     \<and> (\<forall>t. t \<notin> set types \<longrightarrow> m t = all t)"
proof (induction types arbitrary: all)
  case Nil
  then show ?case by simp
next
  case (Cons t ts)
  from Cons.prems obtain es where es: "processType fl pkg t = Inr es" "es \<noteq> []"
    and rest: "main_processTypes fl pkg ts (all(t \<mapsto> es)) = Inr m"
    by (auto split: sum.splits if_splits)
  from Cons.IH [OF rest]
  have ih1: "\<forall>u\<in>set ts. \<exists>es. processType fl pkg u = Inr es \<and> es \<noteq> [] \<and> m u = Some es"
    and ih2: "\<forall>u. u \<notin> set ts \<longrightarrow> m u = (all(t \<mapsto> es)) u"
    by blast+
  have "\<exists>es'. processType fl pkg t = Inr es' \<and> es' \<noteq> [] \<and> m t = Some es'"
  proof (cases "t \<in> set ts")
    case True
    then show ?thesis using ih1 by blast
  next
    case False
    then have "m t = Some es" using ih2 by simp
    then show ?thesis using es by blast
  qed
  moreover have "\<forall>u. u \<notin> set (t # ts) \<longrightarrow> m u = all u"
    using ih2 by simp
  ultimately show ?case using ih1 by simp
qed

lemma main_success:
  assumes "main env fl pkg files = (None, files')"
  shows "\<exists>d. files' (main_outputName fl (main_types fl)) = Some (Execute d)
     \<and> Types d = sort (map TrimSpace (Split (typeNames fl) CHR '',''))
     \<and> (\<forall>t\<in>set (Types d). \<exists>es. processType fl pkg t = Inr es \<and> es \<noteq> [] \<and> Elements d t = Some es)
     \<and> Bitmask d = bitmaskFlag fl \<and> JSON d = jsonFlag fl \<and> YAML d = yamlFlag fl
     \<and> SQL d = sqlFlag fl"
proof -
  let ?types = "main_types fl"
  let ?out = "main_outputName fl ?types"
  from assms have ne: "typeNames fl \<noteq> []"
    by (auto simp: main_def)
  from assms ne obtain m where m: "main_processTypes fl pkg ?types Map.empty = Inr m"
    and gen: "generateCode env ?out
        (main_data fl pkg ?types m (buildCommandString fl ?types ?out)) files = (None, files')"
    by (auto simp: main_def Let_def split: sum.splits)
  let ?d = "main_data fl pkg ?types m (buildCommandString fl ?types ?out)"
  from gen have "files' = files(?out \<mapsto> Execute ?d)"
    by (auto simp: generateCode_def Let_def split: if_splits)
  then have f: "files' ?out = Some (Execute ?d)" by simp
  have t: "Types ?d = sort (map TrimSpace (Split (typeNames fl) CHR '',''))"
    by (simp add: main_data_def main_types_def)
  have e: "\<forall>t\<in>set (Types ?d). \<exists>es. processType fl pkg t = Inr es \<and> es \<noteq> [] \<and> Elements ?d t = Some es"
    using main_processTypes_Inr [OF m] by (simp add: main_data_def)
  have g: "Bitmask ?d = bitmaskFlag fl \<and> JSON ?d = jsonFlag fl \<and> YAML ?d = yamlFlag fl
     \<and> SQL ?d = sqlFlag fl"
    by (simp add: main_data_def)
  from f t e g show ?thesis by blast
qed

lemma Declares_typeDecls:
  "map Declares (typeDecls data t) =
     [''_'' @ t @ ''Map'', ''_'' @ t @ ''Values'', ''_'' @ t @ ''NameToValueMap'',
      ''String'', t @ ''Values'', t @ ''String'', ''Valid'']
     @ (if Bitmask data then [''Has'', ''HasAny'', ''HasAll'', ''Set'', ''Clear'', ''Toggle''] else [])
     @ (if JSON data then [''MarshalJSON'', ''UnmarshalJSON''] else [])
     @ (if YAML data then [''MarshalYAML'', ''UnmarshalYAML''] else [])
     @ (if SQL data then [''Scan'', ''Value''] else [])"
  by (simp add: typeDecls_def funcDecl_def Let_def)

lemma Lines_typeDecls:
  "Elements data t = Some es \<Longrightarrow>
   map Lines (typeDecls data t) =
     [map (\<lambda>e. Name e @ '': '' @ [CHR 0x22] @ StringValue e @ [CHR 0x22] @ '','') es,
      map (\<lambda>e. Name e @ '','') es,
      map (\<lambda>e. [CHR 0x22] @ StringValue e @ [CHR 0x22] @ '': '' @ Name e @ '','') es]
     @ replicate (length (typeDecls data t) - 3) []"
  by (simp add: typeDecls_def funcDecl_def Let_def)

lemma parseToggles_eq:
  "parseToggles args fl =
     fl\<lparr>sqlFlag := sqlFlag fl \<or> SqlArg \<in> set args,
        jsonFlag := jsonFlag fl \<or> JsonArg \<in> set args,
        yamlFlag := yamlFlag fl \<or> YamlArg \<in> set args,
        bitmaskFlag := bitmaskFlag fl \<or> BitmaskArg \<in> set args\<rparr>"
proof (induction args arbitrary: fl)
  case Nil
  then show ?case by (simp add: parseToggles_def)
next
  case (Cons a args)
  have "parseToggles (a # args) fl = parseToggles args (setToggle a fl)"
    by (simp add: parseToggles_def)
  then show ?case
    by (cases a) (auto simp: Cons.IH)
qed

lemma parseToggles_order:
  "set args = set args' \<Longrightarrow> parseToggles args fl = parseToggles args' fl"
  by (simp add: parseToggles_eq)

lemma Owner_typeDecls: "map Owner (typeDecls data t) = replicate (length (typeDecls data t)) t"
  by (simp add: typeDecls_def funcDecl_def Let_def)

lemma Group_typeDecls:
  "map Group (typeDecls data t) =
     replicate 3 LookupGroup @ replicate 4 BaseGroup
     @ (if Bitmask data then replicate 6 BitmaskGroup else [])
     @ (if JSON data then replicate 2 JSONGroup else [])
     @ (if YAML data then replicate 2 YAMLGroup else [])
     @ (if SQL data then replicate 2 SQLGroup else [])"
  by (simp add: typeDecls_def funcDecl_def Let_def numeral_2_eq_2 numeral_3_eq_3 eval_nat_numeral)

lemma main_types_perm:
  assumes "mset (map TrimSpace (Split (typeNames fl) CHR '','')) =
           mset (map TrimSpace (Split (typeNames fl') CHR '',''))"
  shows "main_types fl = main_types fl'"
  unfolding main_types_def
  by (rule properties_for_sort) (simp_all add: assms [symmetric] del: mset_map)

lemma two_types_flags_fields:
  "typeNames two_types_flags = ''Status, Permission''" "output' two_types_flags = []"
  "trimPrefix two_types_flags = []" "\<not> lineComment two_types_flags"
  "sqlFlag two_types_flags" "jsonFlag two_types_flags"
  "\<not> yamlFlag two_types_flags" "\<not> bitmaskFlag two_types_flags"
  by (simp_all add: two_types_flags_def parseToggles_def default_flags_def)

lemma two_types_main_types: "main_types two_types_flags = [''Permission'', ''Status'']"
proof -
  have "sort (map TrimSpace (Split ''Status, Permission'' CHR '','')) = [''Permission'', ''Status'']"
    by code_simp
  then show ?thesis by (simp add: main_types_def two_types_flags_fields)
qed

lemma two_types_Permission:
  "processType two_types_flags two_types_pkg ''Permission'' = Inr Permission_elements"
  by (simp add: processType_def two_types_pkg_def specElements_def Permission_const_def
      Status_const_def deriveStringValue_def two_types_flags_fields Permission_elements_def)

lemma two_types_Status:
  "processType two_types_flags two_types_pkg ''Status'' = Inr Status_elements"
  by (simp add: processType_def two_types_pkg_def specElements_def Permission_const_def
      Status_const_def deriveStringValue_def two_types_flags_fields Status_elements_def)

lemma two_types_run:
  "fst (main always_ok two_types_flags two_types_pkg Map.empty) = None"
proof -
  have p: "main_processTypes two_types_flags two_types_pkg [''Permission'', ''Status''] Map.empty
      = Inr [''Permission'' \<mapsto> Permission_elements, ''Status'' \<mapsto> Status_elements]"
    by (simp add: two_types_Permission two_types_Status)
      (simp add: Permission_elements_def Status_elements_def)
  show ?thesis
    by (simp add: main_def Let_def two_types_main_types p generateCode_def always_ok_def
        two_types_flags_fields del: main_processTypes.simps)
qed

text \<open>
  C8. A run that returns normally leaves the file of the template executed on the
  sorted list of the trimmed type names, with the constants of each type as
  \<^verbatim>\<open>processType\<close> found them. The declarations of that file are the blocks of the
  types, one whole block after the other in the order of that list, and every declaration
  of a block belongs to the block's type. A block declares, in this order, the three
  lookup structures \<^verbatim>\<open>_TMap\<close>, \<^verbatim>\<open>_TValues\<close> and \<^verbatim>\<open>_TNameToValueMap\<close>, each with one line
  per constant in the order of the constants; the base functions \<^verbatim>\<open>String\<close>,
  \<^verbatim>\<open>TValues\<close>, \<^verbatim>\<open>TString\<close> and \<^verbatim>\<open>Valid\<close>; and then the functions of the bitmask, JSON,
  YAML and SQL groups that are switched on. The list of types is the same for every
  order in which the names were requested, and the switches are the same for every order
  in which they were given on the command line.
\<close>

theorem emitter_order:
  "(main env fl pkg files = (None, files') \<longrightarrow>
      (\<exists>d. files' (main_outputName fl (main_types fl)) = Some (Execute d)
         \<and> Types d = sort (map TrimSpace (Split (typeNames fl) CHR '',''))
         \<and> (\<forall>t\<in>set (Types d). \<exists>es. processType fl pkg t = Inr es \<and> es \<noteq> []
                                   \<and> Elements d t = Some es)
         \<and> Bitmask d = bitmaskFlag fl \<and> JSON d = jsonFlag fl \<and> YAML d = yamlFlag fl
         \<and> SQL d = sqlFlag fl))
   \<and> Decls (Execute data) = concat (map (typeDecls data) (Types data))
   \<and> map Owner (typeDecls data t) = replicate (length (typeDecls data t)) t
   \<and> map Group (typeDecls data t) =
       replicate 3 LookupGroup @ replicate 4 BaseGroup
       @ (if Bitmask data then replicate 6 BitmaskGroup else [])
       @ (if JSON data then replicate 2 JSONGroup else [])
       @ (if YAML data then replicate 2 YAMLGroup else [])
       @ (if SQL data then replicate 2 SQLGroup else [])
   \<and> map Declares (typeDecls data t) =
       [''_'' @ t @ ''Map'', ''_'' @ t @ ''Values'', ''_'' @ t @ ''NameToValueMap'',
        ''String'', t @ ''Values'', t @ ''String'', ''Valid'']
       @ (if Bitmask data then [''Has'', ''HasAny'', ''HasAll'', ''Set'', ''Clear'', ''Toggle''] else [])
       @ (if JSON data then [''MarshalJSON'', ''UnmarshalJSON''] else [])
       @ (if YAML data then [''MarshalYAML'', ''UnmarshalYAML''] else [])
       @ (if SQL data then [''Scan'', ''Value''] else [])
   \<and> (Elements data t = Some es \<longrightarrow>
        map Lines (typeDecls data t) =
          [map (\<lambda>e. Name e @ '': '' @ [CHR 0x22] @ StringValue e @ [CHR 0x22] @ '','') es,
           map (\<lambda>e. Name e @ '','') es,
           map (\<lambda>e. [CHR 0x22] @ StringValue e @ [CHR 0x22] @ '': '' @ Name e @ '','') es]
          @ replicate (length (typeDecls data t) - 3) [])
   \<and> (mset (map TrimSpace (Split (typeNames fl) CHR '','')) =
        mset (map TrimSpace (Split (typeNames fl') CHR '','')) \<longrightarrow> main_types fl = main_types fl')
   \<and> (set args = set args' \<longrightarrow> parseToggles args fl = parseToggles args' fl)"
proof -
  have a: "Decls (Execute data) = concat (map (typeDecls data) (Types data))"
    by (simp add: Execute_def)
  show ?thesis
    using a main_success [of env fl pkg files files'] Owner_typeDecls [of data t]
      Group_typeDecls [of data t] Declares_typeDecls [of data t] Lines_typeDecls [of data t es]
      main_types_perm [of fl fl'] parseToggles_order [of args args' fl]
    by blast
qed

theorem emitter_order_witness:
  "fst (main always_ok two_types_flags two_types_pkg Map.empty) = None
   \<and> map Owner (Decls (the (snd (main always_ok two_types_flags two_types_pkg Map.empty) ''enums_gen.go'')))
       = replicate 11 ''Permission'' @ replicate 11 ''Status''
   \<and> map Declares (Decls (the (snd (main always_ok two_types_flags two_types_pkg Map.empty) ''enums_gen.go'')))
       = [''_PermissionMap'', ''_PermissionValues'', ''_PermissionNameToValueMap'',
          ''String'', ''PermissionValues'', ''PermissionString'', ''Valid'',
          ''MarshalJSON'', ''UnmarshalJSON'', ''Scan'', ''Value'',
          ''_StatusMap'', ''_StatusValues'', ''_StatusNameToValueMap'',
          ''String'', ''StatusValues'', ''StatusString'', ''Valid'',
          ''MarshalJSON'', ''UnmarshalJSON'', ''Scan'', ''Value'']
   \<and> map Lines (take 3 (Decls (the (snd (main always_ok two_types_flags two_types_pkg Map.empty) ''enums_gen.go''))))
       = [[''Read: '' @ [CHR 0x22] @ ''Read'' @ [CHR 0x22] @ '','',
           ''Write: '' @ [CHR 0x22] @ ''Write'' @ [CHR 0x22] @ '','',
           ''Execute: '' @ [CHR 0x22] @ ''Execute'' @ [CHR 0x22] @ '','',
           ''Delete: '' @ [CHR 0x22] @ ''Delete'' @ [CHR 0x22] @ '',''],
          [''Read,'', ''Write,'', ''Execute,'', ''Delete,''],
          [[CHR 0x22] @ ''Read'' @ [CHR 0x22] @ '': Read,'',
           [CHR 0x22] @ ''Write'' @ [CHR 0x22] @ '': Write,'',
           [CHR 0x22] @ ''Execute'' @ [CHR 0x22] @ '': Execute,'',
           [CHR 0x22] @ ''Delete'' @ [CHR 0x22] @ '': Delete,'']]
   \<and> main_types two_types_flags = main_types (default_flags\<lparr>typeNames := ''Permission,Status''\<rparr>)
   \<and> parseToggles [SqlArg, JsonArg] default_flags = parseToggles [JsonArg, SqlArg, JsonArg] default_flags"
proof -
  let ?R = "main always_ok two_types_flags two_types_pkg Map.empty"
  let ?f2 = "default_flags\<lparr>typeNames := ''Permission,Status''\<rparr>"
  have r0: "fst ?R = None" by (rule two_types_run)
  then have run: "?R = (None, snd ?R)" by (simp add: prod_eq_iff)
  have out: "main_outputName two_types_flags (main_types two_types_flags) = ''enums_gen.go''"
    by (simp add: main_outputName_def two_types_main_types two_types_flags_fields)
  from run emitter_order [of always_ok two_types_flags two_types_pkg Map.empty "snd ?R"]
  have "\<exists>d. snd ?R (main_outputName two_types_flags (main_types two_types_flags)) = Some (Execute d)
         \<and> Types d = sort (map TrimSpace (Split (typeNames two_types_flags) CHR '',''))
         \<and> (\<forall>t\<in>set (Types d). \<exists>es. processType two_types_flags two_types_pkg t = Inr es
               \<and> es \<noteq> [] \<and> Elements d t = Some es)
         \<and> Bitmask d = bitmaskFlag two_types_flags \<and> JSON d = jsonFlag two_types_flags
         \<and> YAML d = yamlFlag two_types_flags \<and> SQL d = sqlFlag two_types_flags"
    by blast
  then obtain d where F0: "snd ?R (main_outputName two_types_flags (main_types two_types_flags))
        = Some (Execute d)"
    and T0: "Types d = sort (map TrimSpace (Split (typeNames two_types_flags) CHR '',''))"
    and E: "\<forall>t\<in>set (Types d). \<exists>es. processType two_types_flags two_types_pkg t = Inr es
              \<and> es \<noteq> [] \<and> Elements d t = Some es"
    and G0: "Bitmask d = bitmaskFlag two_types_flags" "JSON d = jsonFlag two_types_flags"
      "YAML d = yamlFlag two_types_flags" "SQL d = sqlFlag two_types_flags"
    by blast
  have F: "snd ?R ''enums_gen.go'' = Some (Execute d)"
    using F0 out by simp
  have T: "Types d = [''Permission'', ''Status'']"
    using T0 two_types_main_types by (simp add: main_types_def)
  have G: "\<not> Bitmask d" "JSON d" "\<not> YAML d" "SQL d"
    using G0 by (simp_all add: two_types_flags_fields)
  have EP: "Elements d ''Permission'' = Some Permission_elements"
    using E T two_types_Permission by auto
  note B = emitter_order [where data = d and fl = two_types_flags and fl' = ?f2
      and args = "[SqlArg, JsonArg]" and args' = "[JsonArg, SqlArg, JsonArg]"]
  have D: "Decls (Execute d) = typeDecls d ''Permission'' @ typeDecls d ''Status''"
    using B [of _ _ _ _ "''Status''" "[]"] T by simp
  have len: "length (typeDecls d ''Permission'') = 11" "length (typeDecls d ''Status'') = 11"
    using G by (simp_all add: typeDecls_def Let_def)
  have O: "map Owner (typeDecls d ''Permission'') = replicate 11 ''Permission''"
    "map Owner (typeDecls d ''Status'') = replicate 11 ''Status''"
    using B [of _ _ _ _ "''Permission''" "[]"] B [of _ _ _ _ "''Status''" "[]"] len by simp_all
  have N: "map Declares (typeDecls d ''Permission'') =
      [''_PermissionMap'', ''_PermissionValues'', ''_PermissionNameToValueMap'',
       ''String'', ''PermissionValues'', ''PermissionString'', ''Valid'',
       ''MarshalJSON'', ''UnmarshalJSON'', ''Scan'', ''Value'']"
    "map Declares (typeDecls d ''Status'') =
      [''_StatusMap'', ''_StatusValues'', ''_StatusNameToValueMap'',
       ''String'', ''StatusValues'', ''StatusString'', ''Valid'',
       ''MarshalJSON'', ''UnmarshalJSON'', ''Scan'', ''Value'']"
    using B [of _ _ _ _ "''Permission''" "[]"] B [of _ _ _ _ "''Status''" "[]"] G by simp_all
  have L0: "map Lines (typeDecls d ''Permission'') =
      [map (\<lambda>e. Name e @ '': '' @ [CHR 0x22] @ StringValue e @ [CHR 0x22] @ '','') Permission_elements,
       map (\<lambda>e. Name e @ '','') Permission_elements,
       map (\<lambda>e. [CHR 0x22] @ StringValue e @ [CHR 0x22] @ '': '' @ Name e @ '','') Permission_elements]
      @ replicate (length (typeDecls d ''Permission'') - 3) []"
    using B [of _ _ _ _ "''Permission''" Permission_elements] EP by blast
  have L: "map Lines (take 3 (typeDecls d ''Permission'' @ typeDecls d ''Status'')) =
      [[''Read: '' @ [CHR 0x22] @ ''Read'' @ [CHR 0x22] @ '','',
           ''Write: '' @ [CHR 0x22] @ ''Write'' @ [CHR 0x22] @ '','',
           ''Execute: '' @ [CHR 0x22] @ ''Execute'' @ [CHR 0x22] @ '','',
           ''Delete: '' @ [CHR 0x22] @ ''Delete'' @ [CHR 0x22] @ '',''],
          [''Read,'', ''Write,'', ''Execute,'', ''Delete,''],
          [[CHR 0x22] @ ''Read'' @ [CHR 0x22] @ '': Read,'',
           [CHR 0x22] @ ''Write'' @ [CHR 0x22] @ '': Write,'',
           [CHR 0x22] @ ''Execute'' @ [CHR 0x22] @ '': Execute,'',
           [CHR 0x22] @ ''Delete'' @ [CHR 0x22] @ '': Delete,'']]"
  proof -
    have "map Lines (take 3 (typeDecls d ''Permission'' @ typeDecls d ''Status''))
        = take 3 (map Lines (typeDecls d ''Permission''))"
      using len by (simp add: take_map)
    then show ?thesis
      unfolding L0 by (simp add: len Permission_elements_def)
  qed
  have m: "mset (map TrimSpace (Split (typeNames two_types_flags) CHR '','')) =
           mset (map TrimSpace (Split (typeNames ?f2) CHR '',''))"
  proof -
    have "map TrimSpace (Split ''Status, Permission'' CHR '','') = [''Status'', ''Permission'']"
      "map TrimSpace (Split ''Permission,Status'' CHR '','') = [''Permission'', ''Status'']"
      by code_simp+
    then show ?thesis by (simp add: two_types_flags_fields)
  qed
  have P: "main_types two_types_flags = main_types ?f2"
    using B [of _ _ _ _ "''Status''" "[]"] m by blast
  have st: "set [SqlArg, JsonArg] = set [JsonArg, SqlArg, JsonArg]" by auto
  have Q: "parseToggles [SqlArg, JsonArg] default_flags = parseToggles [JsonArg, SqlArg, JsonArg] default_flags"
    using emitter_order [where fl = default_flags and args = "[SqlArg, JsonArg]"
        and args' = "[JsonArg, SqlArg, JsonArg]"] st by blast
  from r0 F D O N L P Q show ?thesis by simp
qed

end
